theory Spec2Isabelle
  imports Complex_Main "HOL-Library.Word"
begin

section \<open>Data model\<close>

text \<open>
  The repository is two Python modules: \<^verbatim>\<open>qr_detector.py\<close> (detection, annotation,
  counting) and \<^verbatim>\<open>app.py\<close> (image conversion, result formatting, the Streamlit page).
  Everything that is not written in these two files (OpenCV's detector and drawing
  primitives, NumPy's integer cast, PIL's mode conversion) is an external collaborator
  and enters the model as a parameter that may raise.
\<close>

text \<open>Exceptions that can leave the modelled functions.\<close>

datatype error = IndexError | ValueError | Cv2Error | PILError

text \<open>
  A pixel of a three-channel, 8-bit image and a \<^verbatim>\<open>numpy.ndarray\<close> of shape
  (height, width, 3): a list of rows, each a list of pixels.
\<close>

type_synonym pixel = "8 word \<times> 8 word \<times> 8 word"

type_synonym image = "pixel list list"

text \<open>
  A bounding box is an \<^verbatim>\<open>ndarray\<close> of shape (n, 2): a sequence of (x, y) rows. The
  coordinate type \<open>'c\<close> is whatever element type the detector emits.
\<close>

type_synonym 'c box = "('c \<times> 'c) list"

text \<open>\<^verbatim>\<open>@dataclass(frozen=True) class QRCodeResult\<close>: decoded text and bounding box.\<close>

record 'c QRCodeResult =
  data :: string
  points :: "'c box"

text \<open>Integer pixel coordinates, BGR colour triples and the OpenCV constants used.\<close>

type_synonym point = "int \<times> int"

type_synonym colour = "int \<times> int \<times> int"

datatype font = FONT_HERSHEY_SIMPLEX

datatype line_type = LINE_AA

datatype color_conversion = COLOR_RGB2BGR | COLOR_BGR2RGB

text \<open>
  The tuple that \<^verbatim>\<open>detectAndDecodeMulti\<close> returns. OpenCV's Python binding returns four
  values: \<^verbatim>\<open>retval, decoded_info, points, straight_qrcode\<close> (\<open>Tuple4\<close>). \<open>Tuple3\<close> is a
  return of the three values that line 32 of \<^verbatim>\<open>qr_detector.py\<close> unpacks: decoded texts,
  points or \<^verbatim>\<open>None\<close>, and a value the source ignores.
\<close>

datatype ('c, 'x) py_tuple =
  Tuple3 "string list" "'c box list option" 'x
| Tuple4 bool "string list" "'c box list option" 'x

text \<open>
  The external library entry points used by \<^verbatim>\<open>qr_detector.py\<close>.
  \<^item> \<open>QRCodeDetector\<close>: the object built by \<^verbatim>\<open>cv2.QRCodeDetector()\<close>;
  \<^item> \<open>detectAndDecodeMulti\<close>: the method call on that object; it raises or returns a
    tuple;
  \<^item> \<open>polylines\<close>, \<open>putText\<close>: the drawing primitives; each raises, or gives the pixels
    of the buffer after drawing;
  \<^item> \<open>astype_int\<close>: the element conversion of \<^verbatim>\<open>ndarray.astype(int)\<close>.
\<close>

record ('c, 'd, 'x) cv2 =
  QRCodeDetector :: 'd
  detectAndDecodeMulti :: "'d \<Rightarrow> image \<Rightarrow> error + ('c, 'x) py_tuple"
  polylines :: "image \<Rightarrow> point list list \<Rightarrow> bool \<Rightarrow> colour \<Rightarrow> int \<Rightarrow> error + image"
  putText ::
    "image \<Rightarrow> string \<Rightarrow> point \<Rightarrow> font \<Rightarrow> rat \<Rightarrow> colour \<Rightarrow> int \<Rightarrow> line_type \<Rightarrow> error + image"
  astype_int :: "'c \<Rightarrow> int"

text \<open>
  Pixel buffers are mutable objects passed by reference. The store maps a reference to
  the buffer's current contents; references below \<open>next_free\<close> are allocated. \<open>calls\<close>
  logs every call of a drawing primitive that returned, in order, with its arguments.
\<close>

datatype cv2_call =
  is_Polylines: Polylines nat "point list list" bool colour int
| is_PutText: PutText nat string point font rat colour int line_type

record store =
  cells :: "nat \<Rightarrow> image"
  next_free :: nat
  calls :: "cv2_call list"

section \<open>qr\_detector.py\<close>

subsection \<open>detect\_qr\_codes\<close>

text \<open>
  The loop \<^verbatim>\<open>for text, box in zip(decoded_texts, points): if text: results.append(...)\<close>
  over the zipped pairs, with the list \<open>results\<close> built so far.
\<close>

fun detect_loop :: "(string \<times> 'c box) list \<Rightarrow> 'c QRCodeResult list \<Rightarrow> 'c QRCodeResult list" where
  "detect_loop [] results = results"
| "detect_loop ((text, box) # rest) results =
     (if text \<noteq> []
      then detect_loop rest (results @ [\<lparr>data = text, points = box\<rparr>])
      else detect_loop rest results)"

text \<open>
  \<open>detect_qr_codes\<close> builds a new detector and calls it on the buffer that the reference
  \<open>img\<close> (the source's \<^verbatim>\<open>image\<close>) names. An exception of the detector propagates. The
  assignment \<^verbatim>\<open>decoded_texts, points, _ = ...\<close> raises \<^verbatim>\<open>ValueError\<close> on a tuple that does
  not have three values. On three values the function returns \<open>[]\<close> when the points
  (\<open>points_out\<close>, the source's local \<^verbatim>\<open>points\<close>) are \<^verbatim>\<open>None\<close> or no text came back, and
  runs the loop otherwise. The store is returned as it was: nothing is written.
\<close>

definition detect_qr_codes ::
  "('c, 'd, 'x) cv2 \<Rightarrow> nat \<Rightarrow> store \<Rightarrow> (error + 'c QRCodeResult list) \<times> store" where
  "detect_qr_codes lib img s =
     (let detector = QRCodeDetector lib in
      case detectAndDecodeMulti lib detector (cells s img) of
        Inl e \<Rightarrow> (Inl e, s)
      | Inr (Tuple4 _ _ _ _) \<Rightarrow> (Inl ValueError, s)
      | Inr (Tuple3 decoded_texts points_out _) \<Rightarrow>
          if points_out = None \<or> length decoded_texts = 0
          then (Inr [], s)
          else (Inr (detect_loop (zip decoded_texts (the points_out)) []), s))"

subsection \<open>Python built-ins: str of an int, enumerate\<close>

text \<open>
  \<^verbatim>\<open>str(n)\<close> for a Python int, as the f-strings of the source apply it to the loop
  index: decimal digits, most significant first, with a leading minus sign for a
  negative number.
\<close>

fun str_nat :: "nat \<Rightarrow> string" where
  "str_nat n =
     (if n < 10 then [''0123456789'' ! n]
      else str_nat (n div 10) @ [''0123456789'' ! (n mod 10)])"

declare str_nat.simps [simp del]

definition py_str :: "int \<Rightarrow> string" where
  "py_str i = (if i < 0 then CHR ''-'' # str_nat (nat (- i)) else str_nat (nat i))"

text \<open>Reading a digit string back, used to check that \<open>str_nat\<close> is decimal notation.\<close>

definition nat_of_digits :: "string \<Rightarrow> nat" where
  "nat_of_digits cs = foldl (\<lambda>acc c. 10 * acc + (of_char c - 48)) 0 cs"

text \<open>\<^verbatim>\<open>enumerate(xs, start=k)\<close>: the elements paired with k, k+1, ...\<close>

fun py_enumerate :: "'a list \<Rightarrow> int \<Rightarrow> (int \<times> 'a) list" where
  "py_enumerate [] start = []"
| "py_enumerate (x # xs) start = (start, x) # py_enumerate xs (start + 1)"

subsection \<open>draw\_qr\_boxes\<close>

text \<open>
  \<^verbatim>\<open>image.copy()\<close> allocates a new buffer with the same pixels and returns its
  reference.
\<close>

definition ndarray_copy :: "nat \<Rightarrow> store \<Rightarrow> nat \<times> store" where
  "ndarray_copy img s =
     (next_free s,
      s\<lparr>cells := (cells s)(next_free s := cells s img), next_free := Suc (next_free s)\<rparr>)"

text \<open>
  \<^verbatim>\<open>cv2.polylines\<close> and \<^verbatim>\<open>cv2.putText\<close> draw in place. A call that raises leaves the
  store as it was; a call that returns has changed the buffer it was given, and only
  that buffer, and is logged.
\<close>

definition cv2_polylines ::
  "('c, 'd, 'x) cv2 \<Rightarrow> nat \<Rightarrow> point list list \<Rightarrow> bool \<Rightarrow> colour \<Rightarrow> int \<Rightarrow> store
   \<Rightarrow> (error + unit) \<times> store" where
  "cv2_polylines lib buf pts isClosed color thickness s =
     (case polylines lib (cells s buf) pts isClosed color thickness of
        Inl e \<Rightarrow> (Inl e, s)
      | Inr drawn \<Rightarrow>
          (Inr (),
           s\<lparr>cells := (cells s)(buf := drawn),
             calls := calls s @ [Polylines buf pts isClosed color thickness]\<rparr>))"

definition cv2_putText ::
  "('c, 'd, 'x) cv2 \<Rightarrow> nat \<Rightarrow> string \<Rightarrow> point \<Rightarrow> font \<Rightarrow> rat \<Rightarrow> colour \<Rightarrow> int \<Rightarrow> line_type
   \<Rightarrow> store \<Rightarrow> (error + unit) \<times> store" where
  "cv2_putText lib buf txt org fontFace fontScale color thickness lineType s =
     (case putText lib (cells s buf) txt org fontFace fontScale color thickness lineType of
        Inl e \<Rightarrow> (Inl e, s)
      | Inr drawn \<Rightarrow>
          (Inr (),
           s\<lparr>cells := (cells s)(buf := drawn),
             calls := calls s @
               [PutText buf txt org fontFace fontScale color thickness lineType]\<rparr>))"

text \<open>
  \<open>box_astype_int\<close> is \<^verbatim>\<open>result.points.astype(int)\<close>: every coordinate converted.
  \<open>draw_loop\<close> is the body of \<^verbatim>\<open>for idx, result in enumerate(results, start=1)\<close>,
  run over the enumerated pairs. An exception of a drawing primitive ends the loop.
  \<^verbatim>\<open>pts[0]\<close> raises \<^verbatim>\<open>IndexError\<close> on a box with no row; by then the polygon call of that
  iteration has been made.
\<close>

definition box_astype_int :: "('c, 'd, 'x) cv2 \<Rightarrow> 'c box \<Rightarrow> point list" where
  "box_astype_int lib b = map (\<lambda>(x, y). (astype_int lib x, astype_int lib y)) b"

fun draw_loop ::
  "('c, 'd, 'x) cv2 \<Rightarrow> nat \<Rightarrow> (int \<times> 'c QRCodeResult) list \<Rightarrow> store \<Rightarrow> (error + unit) \<times> store" where
  "draw_loop lib output [] s = (Inr (), s)"
| "draw_loop lib output ((idx, result) # rest) s =
     (let pts = box_astype_int lib (points result) in
      case cv2_polylines lib output [pts] True (0, 255, 0) 2 s of
        (Inl e, s1) \<Rightarrow> (Inl e, s1)
      | (Inr _, s1) \<Rightarrow>
          (let label = py_str idx @ '': '' @ data result in
           case pts of
             [] \<Rightarrow> (Inl IndexError, s1)
           | text_origin # _ \<Rightarrow>
               (case cv2_putText lib output label text_origin FONT_HERSHEY_SIMPLEX (1 / 2)
                       (255, 0, 0) 1 LINE_AA s1 of
                  (Inl e, s2) \<Rightarrow> (Inl e, s2)
                | (Inr _, s2) \<Rightarrow> draw_loop lib output rest s2)))"

definition draw_qr_boxes ::
  "('c, 'd, 'x) cv2 \<Rightarrow> nat \<Rightarrow> 'c QRCodeResult list \<Rightarrow> store \<Rightarrow> (error + nat) \<times> store" where
  "draw_qr_boxes lib img results s =
     (let (output, s1) = ndarray_copy img s in
      case draw_loop lib output (py_enumerate results 1) s1 of
        (Inl e, s2) \<Rightarrow> (Inl e, s2)
      | (Inr _, s2) \<Rightarrow> (Inr output, s2))"

text \<open>
  The description of annotation in the specification, on pixel values: for each symbol
  in list order, with an index that starts at \<open>idx\<close>, draw the closed polygon of its
  boundary, then the label "<index>: <decoded text>" at its first boundary point. An
  error of a drawing primitive, or a boundary without a first point, ends it.
\<close>

fun annotate_spec ::
  "('c, 'd, 'x) cv2 \<Rightarrow> image \<Rightarrow> int \<Rightarrow> 'c QRCodeResult list \<Rightarrow> error + image" where
  "annotate_spec lib im idx [] = Inr im"
| "annotate_spec lib im idx (symbol # rest) =
     (case polylines lib im [box_astype_int lib (points symbol)] True (0, 255, 0) 2 of
        Inl e \<Rightarrow> Inl e
      | Inr with_polygon \<Rightarrow>
          (case points symbol of
             [] \<Rightarrow> Inl IndexError
           | (x, y) # _ \<Rightarrow>
               (case putText lib with_polygon (py_str idx @ '': '' @ data symbol)
                       (astype_int lib x, astype_int lib y) FONT_HERSHEY_SIMPLEX (1 / 2)
                       (255, 0, 0) 1 LINE_AA of
                  Inl e \<Rightarrow> Inl e
                | Inr with_label \<Rightarrow> annotate_spec lib with_label (idx + 1) rest)))"

subsection \<open>count\_qr\_codes\<close>

definition count_qr_codes :: "'c QRCodeResult list \<Rightarrow> int" where
  "count_qr_codes results = int (length results)"

section \<open>app.py\<close>

subsection \<open>load\_image\<close>

text \<open>
  A PIL image in mode RGB: its size and its pixels, addressed (x, y) as
  \<^verbatim>\<open>Image.getpixel\<close> does. \<^verbatim>\<open>np.array\<close> of it has shape (height, width, 3).
\<close>

record rgb_image =
  width :: nat
  height :: nat
  getpixel :: "nat \<times> nat \<Rightarrow> pixel"

definition np_array :: "rgb_image \<Rightarrow> image" where
  "np_array im = map (\<lambda>y. map (\<lambda>x. getpixel im (x, y)) [0..<width im]) [0..<height im]"

text \<open>An array with no element: no row, or rows of no pixel.\<close>

definition ndarray_empty :: "image \<Rightarrow> bool" where
  "ndarray_empty src = (case src of [] \<Rightarrow> True | row # _ \<Rightarrow> row = [])"

text \<open>
  \<^verbatim>\<open>cv2.cvtColor\<close> with the two conversion codes the source uses. It raises on an array
  with no element; otherwise both codes exchange the first and the third channel of
  every pixel.
\<close>

fun cvtColor :: "image \<Rightarrow> color_conversion \<Rightarrow> error + image" where
  "cvtColor src COLOR_RGB2BGR =
     (if ndarray_empty src then Inl Cv2Error
      else Inr (map (map (\<lambda>(r, g, b). (b, g, r))) src))"
| "cvtColor src COLOR_BGR2RGB =
     (if ndarray_empty src then Inl Cv2Error
      else Inr (map (map (\<lambda>(b, g, r). (r, g, b))) src))"

text \<open>
  \<open>convert_RGB\<close> stands for \<^verbatim>\<open>image_file.convert("RGB")\<close>, PIL's conversion of the
  uploaded image: it raises or yields an image in mode RGB.
\<close>

definition load_image :: "('p \<Rightarrow> error + rgb_image) \<Rightarrow> 'p \<Rightarrow> error + image" where
  "load_image convert_RGB image_file =
     (case convert_RGB image_file of
        Inl e \<Rightarrow> Inl e
      | Inr im \<Rightarrow> (let rgb_image = np_array im in cvtColor rgb_image COLOR_RGB2BGR))"

subsection \<open>format\_results\<close>

definition format_results :: "'c QRCodeResult list \<Rightarrow> string list" where
  "format_results results =
     map (\<lambda>(idx, result). py_str idx @ ''. '' @ data result) (py_enumerate results 1)"

section \<open>Example inputs\<close>

text \<open>
  Concrete instances of the external library, used to run the functions above on
  explicit inputs. The stand-in detector raises on a buffer with no rows, finds nothing
  on a one-row buffer, and otherwise locates three symbols of which the second could not
  be decoded. \<open>example_detector\<close> returns three values, \<open>opencv_detector\<close> the four values
  of OpenCV's binding. The stand-in drawing primitives flood the buffer with the stroke
  colour; the label primitive raises on an origin outside the 32-bit integers.
  Coordinates are rationals and the integer cast truncates towards zero.
\<close>

definition example_boxes :: "rat box list" where
  "example_boxes =
     [[(21 / 2, 10), (30, 10), (30, 61 / 2), (21 / 2, 61 / 2)],
      [(40, 40), (50, 40), (50, 50), (40, 50)],
      [(70, 5), (90, 5), (90, 25), (70, 25)]]"

definition flood :: "colour \<Rightarrow> image \<Rightarrow> image" where
  "flood c im = (case c of (c0, c1, c2) \<Rightarrow>
     map (map (\<lambda>_. (word_of_int c0, word_of_int c1, word_of_int c2))) im)"

definition fits_int32 :: "int \<Rightarrow> bool" where
  "fits_int32 i = (- 2147483648 \<le> i \<and> i \<le> 2147483647)"

definition example_detector :: "unit \<Rightarrow> image \<Rightarrow> error + (rat, unit) py_tuple" where
  "example_detector d im =
     (if length im = 0 then Inl Cv2Error
      else if length im = 1 then Inr (Tuple3 [] None ())
      else Inr (Tuple3 [''A'', '''', ''B''] (Some example_boxes) ()))"

definition opencv_detector :: "unit \<Rightarrow> image \<Rightarrow> error + (rat, unit) py_tuple" where
  "opencv_detector d im =
     (if length im = 0 then Inl Cv2Error
      else if length im = 1 then Inr (Tuple4 False [] None ())
      else Inr (Tuple4 True [''A'', '''', ''B''] (Some example_boxes) ()))"

definition example_lib :: "(rat, unit, unit) cv2" where
  "example_lib =
     \<lparr>QRCodeDetector = (),
      detectAndDecodeMulti = example_detector,
      polylines = (\<lambda>im _ _ c _. Inr (flood c im)),
      putText = (\<lambda>im _ org _ _ c _ _.
        if fits_int32 (fst org) \<and> fits_int32 (snd org) then Inr (flood c im)
        else Inl Cv2Error),
      astype_int = (\<lambda>q. if 0 \<le> q then \<lfloor>q\<rfloor> else \<lceil>q\<rceil>)\<rparr>"

definition opencv_lib :: "(rat, unit, unit) cv2" where
  "opencv_lib = example_lib\<lparr>detectAndDecodeMulti := opencv_detector\<rparr>"

text \<open>A store with two allocated buffers: a 2 x 2 image at 0 and a 1 x 1 image at 1.\<close>

definition example_store :: store where
  "example_store =
     \<lparr>cells = (\<lambda>a. if a = 0 then [[(255, 255, 255), (0, 0, 0)], [(0, 0, 0), (255, 255, 255)]]
                   else if a = 1 then [[(255, 255, 255)]] else []),
      next_free = 2,
      calls = []\<rparr>"

definition example_results :: "rat QRCodeResult list" where
  "example_results =
     [\<lparr>data = ''A'', points = [(21 / 2, 10), (30, 10), (30, 61 / 2), (21 / 2, 61 / 2)]\<rparr>,
      \<lparr>data = ''B'', points = [(70, 5), (90, 5), (90, 25), (70, 25)]\<rparr>]"

text \<open>A symbol whose first boundary point lies beyond the 32-bit integers.\<close>

definition far_result :: "rat QRCodeResult" where
  "far_result =
     \<lparr>data = ''A'',
      points = [(3000000000, 10), (3000000020, 10), (3000000020, 30), (3000000000, 30)]\<rparr>"

text \<open>
  A 2 x 1 RGB image, and a stand-in for PIL's conversion: it raises on 0, returns the
  2 x 1 image on 1, and an image of width 0 and height 1 otherwise.
\<close>

definition example_rgb :: rgb_image where
  "example_rgb =
     \<lparr>width = 2, height = 1,
      getpixel = (\<lambda>(x, y). if x = 0 then (10, 20, 30) else (40, 50, 60))\<rparr>"

definition example_convert :: "nat \<Rightarrow> error + rgb_image" where
  "example_convert n =
     (if n = 0 then Inl PILError
      else if n = 1 then Inr example_rgb
      else Inr (example_rgb\<lparr>width := 0\<rparr>))"

section \<open>Python built-ins\<close>

lemma of_char_digit: "d < 10 \<Longrightarrow> of_char (''0123456789'' ! d) = 48 + (d::nat)"
proof -
  assume "d < 10"
  then have "d \<in> {0, 1, 2, 3, 4, 5, 6, 7, 8, 9}" by auto
  then show ?thesis by auto
qed

lemma nat_of_digits_snoc:
  "nat_of_digits (cs @ [c]) = 10 * nat_of_digits cs + (of_char c - 48)"
  by (simp add: nat_of_digits_def)

text \<open>\<open>str_nat\<close> writes decimal notation: reading the digits back gives the number.\<close>

lemma nat_of_digits_str_nat: "nat_of_digits (str_nat n) = n"
proof (induction n rule: str_nat.induct)
  case (1 n)
  show ?case
  proof (cases "n < 10")
    case True
    then show ?thesis
      by (simp add: str_nat.simps [of n] nat_of_digits_def of_char_digit)
  next
    case False
    have "nat_of_digits (str_nat n) =
        10 * nat_of_digits (str_nat (n div 10)) + (of_char (''0123456789'' ! (n mod 10)) - 48)"
      using False by (simp add: str_nat.simps [of n] nat_of_digits_snoc)
    also have "\<dots> = 10 * (n div 10) + n mod 10"
      using False "1.IH" by (simp add: of_char_digit)
    finally show ?thesis by simp
  qed
qed

lemma py_str_examples:
  "py_str 1 = ''1''" "py_str 2 = ''2''" "py_str 10 = ''10''" "py_str 123 = ''123''"
  "py_str (- 45) = ''-45''"
  by (simp_all add: py_str_def str_nat.simps)

lemma py_enumerate_length: "length (py_enumerate xs k) = length xs"
  by (induction xs arbitrary: k) simp_all

lemma py_enumerate_nth:
  "i < length xs \<Longrightarrow> py_enumerate xs k ! i = (k + int i, xs ! i)"
proof (induction xs arbitrary: k i)
  case Nil
  then show ?case by simp
next
  case (Cons x xs)
  then show ?case by (cases i) simp_all
qed

lemma py_enumerate_map:
  "py_enumerate xs k = map (\<lambda>i. (k + int i, xs ! i)) [0..<length xs]"
  by (rule nth_equalityI) (simp_all add: py_enumerate_length py_enumerate_nth)

lemma py_enumerate_snd: "map snd (py_enumerate xs k) = xs"
  by (induction xs arbitrary: k) simp_all

section \<open>Properties of detect\_qr\_codes\<close>

lemma detect_loop_filter:
  "detect_loop ps acc =
     acc @ map (\<lambda>(t, b). \<lparr>data = t, points = b\<rparr>) (filter (\<lambda>(t, b). t \<noteq> []) ps)"
  by (induction ps acc rule: detect_loop.induct) simp_all

lemma detect_qr_codes_result:
  assumes "detectAndDecodeMulti lib (QRCodeDetector lib) (cells s img) = Inr (Tuple3 texts pts x)"
  shows "detect_qr_codes lib img s =
    (Inr (case pts of None \<Rightarrow> []
          | Some boxes \<Rightarrow> map (\<lambda>(t, b). \<lparr>data = t, points = b\<rparr>)
                           (filter (\<lambda>(t, b). t \<noteq> []) (zip texts boxes))), s)"
  using assms by (cases pts) (simp_all add: detect_qr_codes_def detect_loop_filter)

lemma detect_qr_codes_error:
  "detectAndDecodeMulti lib (QRCodeDetector lib) (cells s img) = Inl e \<Longrightarrow>
   detect_qr_codes lib img s = (Inl e, s)"
  by (simp add: detect_qr_codes_def)

text \<open>Four returned values do not unpack into three names.\<close>

lemma detect_qr_codes_unpack:
  "detectAndDecodeMulti lib (QRCodeDetector lib) (cells s img) = Inr (Tuple4 ok texts pts x) \<Longrightarrow>
   detect_qr_codes lib img s = (Inl ValueError, s)"
  by (simp add: detect_qr_codes_def)

lemma detect_qr_codes_store: "snd (detect_qr_codes lib img s) = s"
  by (simp add: detect_qr_codes_def split: sum.splits py_tuple.splits)

lemma detect_qr_codes_reads_pixels:
  "cells s img = cells t img' \<Longrightarrow>
   fst (detect_qr_codes lib img s) = fst (detect_qr_codes lib img' t)"
  by (simp add: detect_qr_codes_def split: sum.splits py_tuple.splits)

lemma example_detect_0:
  "detect_qr_codes example_lib 0 example_store = (Inr example_results, example_store)"
  by (simp add: detect_qr_codes_def example_lib_def example_detector_def example_store_def
      example_boxes_def example_results_def)

lemma example_detect_1:
  "detect_qr_codes example_lib 1 example_store = (Inr [], example_store)"
  by (simp add: detect_qr_codes_def example_lib_def example_detector_def example_store_def)

text \<open>
  C1. Every result in the list returned by \<open>detect_qr_codes\<close> has non-empty decoded
  text: entries whose text is empty are filtered out, whatever the detector located.
\<close>

theorem detect_qr_codes_text_nonempty:
  assumes "detect_qr_codes lib img s = (Inr results, s')"
  shows "\<forall>r \<in> set results. data r \<noteq> []"
proof (cases "detectAndDecodeMulti lib (QRCodeDetector lib) (cells s img)")
  case (Inl e)
  with detect_qr_codes_error [OF Inl] assms show ?thesis by simp
next
  case (Inr out)
  show ?thesis
  proof (cases out)
    case (Tuple3 texts pts x)
    from detect_qr_codes_result [OF Inr [unfolded Tuple3]] assms
    show ?thesis by (cases pts) auto
  next
    case (Tuple4 ok texts pts x)
    from detect_qr_codes_unpack [OF Inr [unfolded Tuple4]] assms
    show ?thesis by simp
  qed
qed

theorem detect_qr_codes_text_nonempty_witness:
  "fst (detect_qr_codes example_lib 0 example_store) = Inr example_results
   \<and> map data example_results = [''A'', ''B'']
   \<and> list_all (\<lambda>r. data r \<noteq> []) example_results"
  using detect_qr_codes_text_nonempty [OF example_detect_0]
  by (simp add: example_detect_0 list_all_iff) (simp add: example_results_def)

text \<open>
  C2. The claim: when the detector locates no symbol or returns no points,
  \<open>detect_qr_codes\<close> returns the empty list and raises nothing. The code does not do so
  with OpenCV's detector: on a blank image the detector returns its four values
  (here \<open>False\<close>, no text, \<^verbatim>\<open>None\<close> and an unused value), the assignment of line 32 has
  three targets, and the call raises \<^verbatim>\<open>ValueError\<close> before the test of lines 34-35 is
  reached.
\<close>

theorem detect_qr_codes_blank_image_raises:
  "detectAndDecodeMulti opencv_lib (QRCodeDetector opencv_lib) (cells example_store 1)
     = Inr (Tuple4 False [] None ())
   \<and> detect_qr_codes opencv_lib 1 example_store = (Inl ValueError, example_store)"
  by (simp add: detect_qr_codes_def opencv_lib_def example_lib_def opencv_detector_def
      example_store_def)

text \<open>
  C5. The claim: the returned list is the detector's (text, boundary) pairs of non-empty
  text, in the detector's order, each with its own boundary. The code returns no list
  with OpenCV's detector: on an image with symbols the detector returns four values
  (here \<open>True\<close>, three texts, three boxes and an unused value) and the assignment of
  line 32 raises \<^verbatim>\<open>ValueError\<close>; the loop of lines 37-42 never runs.
\<close>

theorem detect_qr_codes_symbols_raises:
  "detectAndDecodeMulti opencv_lib (QRCodeDetector opencv_lib) (cells example_store 0)
     = Inr (Tuple4 True [''A'', '''', ''B''] (Some example_boxes) ())
   \<and> detect_qr_codes opencv_lib 0 example_store = (Inl ValueError, example_store)"
  by (simp add: detect_qr_codes_def opencv_lib_def example_lib_def opencv_detector_def
      example_store_def)

text \<open>
  What the loop does on a return of three values: the (text, box) pairs, paired by
  position, with the pairs of empty text removed and nothing else changed.
\<close>

lemma detect_qr_codes_three_values:
  assumes "detectAndDecodeMulti lib (QRCodeDetector lib) (cells s img)
      = Inr (Tuple3 texts (Some boxes) x)"
  shows "detect_qr_codes lib img s =
    (Inr (map (\<lambda>(t, b). \<lparr>data = t, points = b\<rparr>)
            (filter (\<lambda>(t, b). t \<noteq> []) (zip texts boxes))), s)"
  using detect_qr_codes_result [OF assms] by simp

text \<open>
  C9. \<open>detect_qr_codes\<close> is deterministic: its result depends only on the pixels of the
  buffer it is given, so two runs on buffers with identical pixels return identical
  results (hence identical decoded texts), whatever else the store holds; and a second
  call right after a first one, on the same buffer, returns what the first returned.
\<close>

theorem detect_qr_codes_deterministic:
  "(cells s img = cells t img' \<longrightarrow>
      fst (detect_qr_codes lib img s) = fst (detect_qr_codes lib img' t))
   \<and> fst (detect_qr_codes lib img (snd (detect_qr_codes lib img s)))
       = fst (detect_qr_codes lib img s)"
proof (intro conjI impI)
  assume "cells s img = cells t img'"
  then show "fst (detect_qr_codes lib img s) = fst (detect_qr_codes lib img' t)"
    by (rule detect_qr_codes_reads_pixels)
next
  show "fst (detect_qr_codes lib img (snd (detect_qr_codes lib img s)))
      = fst (detect_qr_codes lib img s)"
    by (simp only: detect_qr_codes_store)
qed

theorem detect_qr_codes_deterministic_witness:
  "fst (detect_qr_codes example_lib 0 (example_store\<lparr>calls := [Polylines 1 [] True (0, 0, 0) 1]\<rparr>))
     = Inr example_results
   \<and> fst (detect_qr_codes example_lib 0 (snd (detect_qr_codes example_lib 0 example_store)))
     = Inr example_results"
proof -
  let ?t = "example_store\<lparr>calls := [Polylines 1 [] True (0, 0, 0) 1]\<rparr>"
  note two_runs = detect_qr_codes_deterministic [of example_store 0 ?t 0 example_lib]
  have same_pixels: "cells example_store 0 = cells ?t 0" by simp
  have first: "fst (detect_qr_codes example_lib 0 example_store) = Inr example_results"
    by (simp only: example_detect_0 fst_conv)
  from two_runs same_pixels
  have "fst (detect_qr_codes example_lib 0 example_store) = fst (detect_qr_codes example_lib 0 ?t)"
    by (rule conjunct1 [THEN mp])
  moreover from two_runs
  have "fst (detect_qr_codes example_lib 0 (snd (detect_qr_codes example_lib 0 example_store)))
      = fst (detect_qr_codes example_lib 0 example_store)"
    by (rule conjunct2)
  ultimately show ?thesis by (simp only: first simp_thms)
qed

section \<open>Properties of draw\_qr\_boxes\<close>

text \<open>A drawing call writes to the buffer it is given only and allocates nothing.\<close>

lemma cv2_polylines_frame:
  "cv2_polylines lib out pts isClosed col th s = (r, s') \<Longrightarrow>
   next_free s' = next_free s \<and> (\<forall>a. a \<noteq> out \<longrightarrow> cells s' a = cells s a)"
  by (auto simp: cv2_polylines_def split: sum.splits)

lemma cv2_putText_frame:
  "cv2_putText lib out txt org face scale col th lt s = (r, s') \<Longrightarrow>
   next_free s' = next_free s \<and> (\<forall>a. a \<noteq> out \<longrightarrow> cells s' a = cells s a)"
  by (auto simp: cv2_putText_def split: sum.splits)

text \<open>So does the loop, whether it finishes or raises.\<close>

lemma draw_loop_frame:
  "draw_loop lib out ps s = (r, s') \<Longrightarrow>
   next_free s' = next_free s \<and> (\<forall>a. a \<noteq> out \<longrightarrow> cells s' a = cells s a)"
proof (induction ps arbitrary: s r s')
  case Nil
  then show ?case by simp
next
  case (Cons p ps)
  obtain idx result where p: "p = (idx, result)" by (cases p)
  let ?pts = "box_astype_int lib (points result)"
  obtain r1 s1 where poly: "cv2_polylines lib out [?pts] True (0, 255, 0) 2 s = (r1, s1)"
    by (cases "cv2_polylines lib out [?pts] True (0, 255, 0) 2 s")
  note frame1 = cv2_polylines_frame [OF poly]
  show ?case
  proof (cases r1)
    case (Inl e)
    with Cons.prems p poly have "s' = s1" by simp
    with frame1 show ?thesis by simp
  next
    case (Inr u)
    show ?thesis
    proof (cases ?pts)
      case Nil
      with Cons.prems p poly Inr have "s' = s1" by simp
      with frame1 show ?thesis by simp
    next
      case (Cons q qs)
      obtain r2 s2 where put: "cv2_putText lib out (py_str idx @ '': '' @ data result) q
          FONT_HERSHEY_SIMPLEX (1 / 2) (255, 0, 0) 1 LINE_AA s1 = (r2, s2)"
        by (cases "cv2_putText lib out (py_str idx @ '': '' @ data result) q
          FONT_HERSHEY_SIMPLEX (1 / 2) (255, 0, 0) 1 LINE_AA s1")
      note frame2 = cv2_putText_frame [OF put]
      show ?thesis
      proof (cases r2)
        case (Inl e)
        with Cons.prems p poly \<open>r1 = Inr u\<close> Cons put have "s' = s2" by simp
        with frame1 frame2 show ?thesis by simp
      next
        case (Inr v)
        with Cons.prems p poly \<open>r1 = Inr u\<close> Cons put
        have "draw_loop lib out ps s2 = (r, s')" by simp
        then have "next_free s' = next_free s2 \<and> (\<forall>a. a \<noteq> out \<longrightarrow> cells s' a = cells s2 a)"
          by (rule Cons.IH)
        with frame1 frame2 show ?thesis by simp
      qed
    qed
  qed
qed

lemma draw_qr_boxes_unfold:
  "draw_qr_boxes lib img results s =
     (let s1 = s\<lparr>cells := (cells s)(next_free s := cells s img), next_free := Suc (next_free s)\<rparr>;
          run = draw_loop lib (next_free s) (py_enumerate results 1) s1
      in (map_sum id (\<lambda>_. next_free s) (fst run), snd run))"
  by (simp add: draw_qr_boxes_def ndarray_copy_def Let_def split: prod.splits sum.splits)

text \<open>
  The loop on the store does to the output buffer what the specification describes on
  pixel values: it raises exactly when that does, with the same exception, and
  otherwise leaves the described pixels in the buffer and has logged, for each pair in
  turn, one polygon call followed by one label call.
\<close>

lemma draw_loop_raises:
  "fst (draw_loop lib out (py_enumerate rs k) s)
     = map_sum id (\<lambda>_. ()) (annotate_spec lib (cells s out) k rs)"
proof (induction rs arbitrary: s k)
  case Nil
  then show ?case by simp
next
  case (Cons r rs)
  show ?case
  proof (cases "polylines lib (cells s out) [box_astype_int lib (points r)] True (0, 255, 0) 2")
    case (Inl e)
    then show ?thesis by (simp add: cv2_polylines_def)
  next
    case poly: (Inr im1)
    show ?thesis
    proof (cases "points r")
      case Nil
      with poly show ?thesis by (simp add: cv2_polylines_def box_astype_int_def)
    next
      case (Cons q qs)
      obtain x y where q: "q = (x, y)" by (cases q)
      show ?thesis
      proof (cases "putText lib im1 (py_str k @ '': '' @ data r)
          (astype_int lib x, astype_int lib y) FONT_HERSHEY_SIMPLEX (1 / 2) (255, 0, 0) 1 LINE_AA")
        case (Inl e)
        with poly Cons q show ?thesis
          by (simp add: cv2_polylines_def cv2_putText_def box_astype_int_def)
      next
        case (Inr im2)
        with poly Cons q Cons.IH show ?thesis
          by (simp add: cv2_polylines_def cv2_putText_def box_astype_int_def)
      qed
    qed
  qed
qed

lemma draw_loop_draws:
  "annotate_spec lib (cells s out) k rs = Inr im' \<Longrightarrow>
   cells (snd (draw_loop lib out (py_enumerate rs k) s)) out = im'
   \<and> calls (snd (draw_loop lib out (py_enumerate rs k) s)) = calls s @
       concat (map (\<lambda>(idx, r).
         [Polylines out [box_astype_int lib (points r)] True (0, 255, 0) 2,
          PutText out (py_str idx @ '': '' @ data r)
            (astype_int lib (fst (hd (points r))), astype_int lib (snd (hd (points r))))
            FONT_HERSHEY_SIMPLEX (1 / 2) (255, 0, 0) 1 LINE_AA]) (py_enumerate rs k))"
proof (induction rs arbitrary: s k)
  case Nil
  then show ?case by simp
next
  case (Cons r rs)
  from Cons.prems obtain im1 where
    poly: "polylines lib (cells s out) [box_astype_int lib (points r)] True (0, 255, 0) 2 = Inr im1"
    by (auto split: sum.splits)
  from Cons.prems poly obtain x y qs where pts: "points r = (x, y) # qs"
    by (auto split: list.splits)
  from Cons.prems poly pts obtain im2 where
    put: "putText lib im1 (py_str k @ '': '' @ data r) (astype_int lib x, astype_int lib y)
        FONT_HERSHEY_SIMPLEX (1 / 2) (255, 0, 0) 1 LINE_AA = Inr im2"
    and rest: "annotate_spec lib im2 (k + 1) rs = Inr im'"
    by (auto split: sum.splits)
  let ?s2 = "s\<lparr>cells := (cells s)(out := im2),
      calls := calls s @ [Polylines out [box_astype_int lib (points r)] True (0, 255, 0) 2,
        PutText out (py_str k @ '': '' @ data r) (astype_int lib x, astype_int lib y)
          FONT_HERSHEY_SIMPLEX (1 / 2) (255, 0, 0) 1 LINE_AA]\<rparr>"
  have step: "draw_loop lib out (py_enumerate (r # rs) k) s
      = draw_loop lib out (py_enumerate rs (k + 1)) ?s2"
    using poly pts put by (simp add: cv2_polylines_def cv2_putText_def box_astype_int_def)
  have "annotate_spec lib (cells ?s2 out) (k + 1) rs = Inr im'"
    using rest by simp
  from Cons.IH [OF this] show ?case
    unfolding step using pts by simp
qed

text \<open>
  When no drawing primitive ever raises and no box is empty, the description never
  raises either.
\<close>

lemma annotate_spec_returns:
  assumes "\<forall>r \<in> set rs. points r \<noteq> []"
    and "\<And>im pts isClosed col th. \<exists>im'. polylines lib im pts isClosed col th = Inr im'"
    and "\<And>im txt org face scale col th lt. \<exists>im'. putText lib im txt org face scale col th lt = Inr im'"
  shows "\<exists>im'. annotate_spec lib im k rs = Inr im'"
  using assms(1)
proof (induction rs arbitrary: im k)
  case Nil
  then show ?case by simp
next
  case (Cons r rs)
  obtain im1 where
    poly: "polylines lib im [box_astype_int lib (points r)] True (0, 255, 0) 2 = Inr im1"
    using assms(2) by blast
  from Cons.prems obtain x y qs where pts: "points r = (x, y) # qs"
    by (cases "points r") auto
  obtain im2 where
    put: "putText lib im1 (py_str k @ '': '' @ data r) (astype_int lib x, astype_int lib y)
        FONT_HERSHEY_SIMPLEX (1 / 2) (255, 0, 0) 1 LINE_AA = Inr im2"
    using assms(3) by blast
  from Cons.prems have "\<forall>r \<in> set rs. points r \<noteq> []" by simp
  from Cons.IH [OF this, of im2 "k + 1"] poly pts put show ?case by simp
qed

lemma count_pairs:
  "length (filter is_Polylines (concat (map (\<lambda>x. [Polylines (a x) (b x) (c x) (d x) (e x),
       PutText (f x) (g x) (h x) (i x) (j x) (k x) (l x) (m x)]) xs))) = length xs
   \<and> length (filter is_PutText (concat (map (\<lambda>x. [Polylines (a x) (b x) (c x) (d x) (e x),
       PutText (f x) (g x) (h x) (i x) (j x) (k x) (l x) (m x)]) xs))) = length xs"
  by (induction xs) simp_all

lemma example_floor: "\<lfloor>21 / 2 :: rat\<rfloor> = 10" "\<lfloor>61 / 2 :: rat\<rfloor> = 30"
  by (simp_all add: floor_unique)

lemma example_draw:
  "fst (draw_qr_boxes example_lib 0 example_results example_store) = Inr 2
   \<and> cells (snd (draw_qr_boxes example_lib 0 example_results example_store)) 0
       = [[(255, 255, 255), (0, 0, 0)], [(0, 0, 0), (255, 255, 255)]]
   \<and> cells (snd (draw_qr_boxes example_lib 0 example_results example_store)) 2
       = [[(255, 0, 0), (255, 0, 0)], [(255, 0, 0), (255, 0, 0)]]
   \<and> calls (snd (draw_qr_boxes example_lib 0 example_results example_store)) =
       [Polylines 2 [[(10, 10), (30, 10), (30, 30), (10, 30)]] True (0, 255, 0) 2,
        PutText 2 ''1: A'' (10, 10) FONT_HERSHEY_SIMPLEX (1 / 2) (255, 0, 0) 1 LINE_AA,
        Polylines 2 [[(70, 5), (90, 5), (90, 25), (70, 25)]] True (0, 255, 0) 2,
        PutText 2 ''2: B'' (70, 5) FONT_HERSHEY_SIMPLEX (1 / 2) (255, 0, 0) 1 LINE_AA]"
  by (simp add: draw_qr_boxes_def ndarray_copy_def example_results_def example_store_def
      example_lib_def cv2_polylines_def cv2_putText_def box_astype_int_def flood_def
      fits_int32_def py_str_examples example_floor Let_def)

text \<open>
  A box with no row: the polygon call is made, then \<^verbatim>\<open>pts[0]\<close> raises and no label is
  drawn. The input buffer is untouched here too.
\<close>

lemma example_draw_no_points:
  "fst (draw_qr_boxes example_lib 0 [\<lparr>data = ''A'', points = []\<rparr>] example_store) = Inl IndexError
   \<and> calls (snd (draw_qr_boxes example_lib 0 [\<lparr>data = ''A'', points = []\<rparr>] example_store))
       = [Polylines 2 [[]] True (0, 255, 0) 2]
   \<and> cells (snd (draw_qr_boxes example_lib 0 [\<lparr>data = ''A'', points = []\<rparr>] example_store)) 0
       = [[(255, 255, 255), (0, 0, 0)], [(0, 0, 0), (255, 255, 255)]]"
  by (simp add: draw_qr_boxes_def ndarray_copy_def example_store_def example_lib_def
      cv2_polylines_def box_astype_int_def flood_def Let_def)

text \<open>
  C3. \<open>draw_qr_boxes\<close> never changes the buffer it is given: for every allocated buffer
  \<open>img\<close> and every list of results, whether the call returns or raises, the pixels
  stored at \<open>img\<close> (and at every other buffer allocated before the call) are the same
  afterwards, and a returned reference is not \<open>img\<close>: the drawing went to a copy.
\<close>

theorem draw_qr_boxes_input_unchanged:
  assumes "img < next_free s" and "draw_qr_boxes lib img results s = (r, s')"
  shows "cells s' img = cells s img \<and> (\<forall>a < next_free s. cells s' a = cells s a)
    \<and> (\<forall>out. r = Inr out \<longrightarrow> out \<noteq> img)"
proof -
  let ?s1 = "s\<lparr>cells := (cells s)(next_free s := cells s img), next_free := Suc (next_free s)\<rparr>"
  obtain r0 where run: "draw_loop lib (next_free s) (py_enumerate results 1) ?s1 = (r0, s')"
    and r: "r = map_sum id (\<lambda>_. next_free s) r0"
    using assms(2) by (cases "draw_loop lib (next_free s) (py_enumerate results 1) ?s1")
      (simp add: draw_qr_boxes_unfold Let_def)
  from draw_loop_frame [OF run]
  have frame: "\<forall>a. a \<noteq> next_free s \<longrightarrow> cells s' a = cells ?s1 a" by simp
  have old: "\<forall>a < next_free s. cells s' a = cells s a" using frame by simp
  moreover have "\<forall>out. r = Inr out \<longrightarrow> out \<noteq> img"
    using r assms(1) by (cases r0) auto
  ultimately show ?thesis using assms(1) by simp
qed

theorem draw_qr_boxes_input_unchanged_witness:
  "cells (snd (draw_qr_boxes example_lib 0 example_results example_store)) 0
     = [[(255, 255, 255), (0, 0, 0)], [(0, 0, 0), (255, 255, 255)]]
   \<and> cells (snd (draw_qr_boxes example_lib 0 example_results example_store)) 2
     = [[(255, 0, 0), (255, 0, 0)], [(255, 0, 0), (255, 0, 0)]]
   \<and> fst (draw_qr_boxes example_lib 0 example_results example_store) = Inr 2"
proof -
  have alloc: "0 < next_free example_store" by (simp add: example_store_def)
  have run: "draw_qr_boxes example_lib 0 example_results example_store =
      (fst (draw_qr_boxes example_lib 0 example_results example_store),
       snd (draw_qr_boxes example_lib 0 example_results example_store))"
    by simp
  from draw_qr_boxes_input_unchanged [OF alloc run]
  have "cells (snd (draw_qr_boxes example_lib 0 example_results example_store)) 0
      = cells example_store 0"
    by (rule conjunct1)
  then show ?thesis by (simp add: example_draw)
qed

text \<open>
  C6, as stated, fails: "for every list of symbols one polygon and one label per
  symbol". A drawing primitive may raise, and then the loop stops. Here the label
  primitive raises on the first boundary point of the one symbol in the list, which lies
  beyond the 32-bit integers: the call raises, one polygon has been drawn and no label.
\<close>

theorem draw_qr_boxes_label_raises:
  "fst (draw_qr_boxes example_lib 0 [far_result] example_store) = Inl Cv2Error
   \<and> calls (snd (draw_qr_boxes example_lib 0 [far_result] example_store)) =
       [Polylines 2 [[(3000000000, 10), (3000000020, 10), (3000000020, 30), (3000000000, 30)]]
          True (0, 255, 0) 2]
   \<and> length (filter is_Polylines
        (calls (snd (draw_qr_boxes example_lib 0 [far_result] example_store)))) = 1
   \<and> length (filter is_PutText
        (calls (snd (draw_qr_boxes example_lib 0 [far_result] example_store)))) = 0"
  by (simp add: draw_qr_boxes_def ndarray_copy_def example_store_def example_lib_def
      far_result_def cv2_polylines_def cv2_putText_def box_astype_int_def flood_def
      fits_int32_def py_str_examples Let_def)

text \<open>
  C6, amended. For every list of results, \<open>draw_qr_boxes\<close> raises exactly when the
  annotation the specification describes raises (a drawing primitive raises, or a box
  has no first point), with the same exception. Otherwise it returns the copy; the
  copy then holds the pixels of the input with, for the results in list order and
  indices 1, 2, ..., the closed polygon of the box drawn and then the label
  "<index>: <decoded text>" drawn at the box's first point (coordinates converted to
  integers, as for the polygon); these are the drawing calls made, so there are as many
  polygons as labels as results.
\<close>

theorem draw_qr_boxes_annotates:
  "fst (draw_qr_boxes lib img results s)
     = map_sum id (\<lambda>_. next_free s) (annotate_spec lib (cells s img) 1 results)
   \<and> (\<forall>im'. annotate_spec lib (cells s img) 1 results = Inr im' \<longrightarrow>
        cells (snd (draw_qr_boxes lib img results s)) (next_free s) = im'
      \<and> calls (snd (draw_qr_boxes lib img results s)) = calls s @
          concat (map (\<lambda>i.
            [Polylines (next_free s) [box_astype_int lib (points (results ! i))] True (0, 255, 0) 2,
             PutText (next_free s) (py_str (int i + 1) @ '': '' @ data (results ! i))
               (astype_int lib (fst (hd (points (results ! i)))),
                astype_int lib (snd (hd (points (results ! i)))))
               FONT_HERSHEY_SIMPLEX (1 / 2) (255, 0, 0) 1 LINE_AA]) [0..<length results])
      \<and> length (filter is_Polylines (drop (length (calls s))
            (calls (snd (draw_qr_boxes lib img results s))))) = length results
      \<and> length (filter is_PutText (drop (length (calls s))
            (calls (snd (draw_qr_boxes lib img results s))))) = length results)"
proof (intro conjI allI impI)
  let ?s1 = "s\<lparr>cells := (cells s)(next_free s := cells s img), next_free := Suc (next_free s)\<rparr>"
  let ?run = "draw_loop lib (next_free s) (py_enumerate results 1) ?s1"
  let ?call = "\<lambda>i.
          [Polylines (next_free s) [box_astype_int lib (points (results ! i))] True (0, 255, 0) 2,
           PutText (next_free s) (py_str (int i + 1) @ '': '' @ data (results ! i))
             (astype_int lib (fst (hd (points (results ! i)))),
              astype_int lib (snd (hd (points (results ! i)))))
             FONT_HERSHEY_SIMPLEX (1 / 2) (255, 0, 0) 1 LINE_AA]"
  have copy: "cells ?s1 (next_free s) = cells s img" by simp
  show "fst (draw_qr_boxes lib img results s)
     = map_sum id (\<lambda>_. next_free s) (annotate_spec lib (cells s img) 1 results)"
    using draw_loop_raises [of lib "next_free s" results 1 ?s1]
    by (cases "annotate_spec lib (cells s img) 1 results")
      (simp_all add: draw_qr_boxes_unfold Let_def)
  fix im'
  assume ok: "annotate_spec lib (cells s img) 1 results = Inr im'"
  then have "annotate_spec lib (cells ?s1 (next_free s)) 1 results = Inr im'"
    by simp
  from draw_loop_draws [OF this]
  have px: "cells (snd ?run) (next_free s) = im'"
    and log: "calls (snd ?run) = calls s @
       concat (map (\<lambda>(idx, r).
         [Polylines (next_free s) [box_astype_int lib (points r)] True (0, 255, 0) 2,
          PutText (next_free s) (py_str idx @ '': '' @ data r)
            (astype_int lib (fst (hd (points r))), astype_int lib (snd (hd (points r))))
            FONT_HERSHEY_SIMPLEX (1 / 2) (255, 0, 0) 1 LINE_AA]) (py_enumerate results 1))"
    by simp_all
  show "cells (snd (draw_qr_boxes lib img results s)) (next_free s) = im'"
    using px by (simp add: draw_qr_boxes_unfold Let_def)
  show log': "calls (snd (draw_qr_boxes lib img results s)) = calls s @
      concat (map ?call [0..<length results])"
    using log by (simp add: draw_qr_boxes_unfold Let_def py_enumerate_map comp_def add.commute)
  have count: "length (filter is_Polylines (concat (map ?call [0..<length results]))) = length results
    \<and> length (filter is_PutText (concat (map ?call [0..<length results]))) = length results"
    using count_pairs [where xs = "[0..<length results]"] by simp
  show "length (filter is_Polylines (drop (length (calls s))
            (calls (snd (draw_qr_boxes lib img results s))))) = length results"
    using log' count by simp
  show "length (filter is_PutText (drop (length (calls s))
            (calls (snd (draw_qr_boxes lib img results s))))) = length results"
    using log' count by simp
qed

theorem draw_qr_boxes_annotates_witness:
  "annotate_spec example_lib (cells example_store 0) 1 example_results
     = Inr [[(255, 0, 0), (255, 0, 0)], [(255, 0, 0), (255, 0, 0)]]
   \<and> fst (draw_qr_boxes example_lib 0 example_results example_store) = Inr 2
   \<and> cells (snd (draw_qr_boxes example_lib 0 example_results example_store)) 2
       = [[(255, 0, 0), (255, 0, 0)], [(255, 0, 0), (255, 0, 0)]]
   \<and> calls (snd (draw_qr_boxes example_lib 0 example_results example_store)) =
       [Polylines 2 [[(10, 10), (30, 10), (30, 30), (10, 30)]] True (0, 255, 0) 2,
        PutText 2 ''1: A'' (10, 10) FONT_HERSHEY_SIMPLEX (1 / 2) (255, 0, 0) 1 LINE_AA,
        Polylines 2 [[(70, 5), (90, 5), (90, 25), (70, 25)]] True (0, 255, 0) 2,
        PutText 2 ''2: B'' (70, 5) FONT_HERSHEY_SIMPLEX (1 / 2) (255, 0, 0) 1 LINE_AA]"
proof -
  define run where "run = draw_qr_boxes example_lib 0 example_results example_store"
  have spec: "annotate_spec example_lib (cells example_store 0) 1 example_results
      = Inr [[(255, 0, 0), (255, 0, 0)], [(255, 0, 0), (255, 0, 0)]]"
    by (simp add: example_results_def example_store_def example_lib_def box_astype_int_def
        flood_def fits_int32_def example_floor)
  have upt: "[0..<2] = [0, Suc 0]" by (simp add: upt_rec)
  note inst = draw_qr_boxes_annotates [of example_lib 0 example_results example_store,
      folded run_def]
  from inst spec have "fst run = Inr (next_free example_store)" by simp
  then have ret: "fst run = Inr 2" by (simp add: example_store_def)
  from inst spec
  have "cells (snd run) (next_free example_store)
        = [[(255, 0, 0), (255, 0, 0)], [(255, 0, 0), (255, 0, 0)]]
      \<and> calls (snd run) = calls example_store @
          concat (map (\<lambda>i.
            [Polylines (next_free example_store)
               [box_astype_int example_lib (points (example_results ! i))] True (0, 255, 0) 2,
             PutText (next_free example_store)
               (py_str (int i + 1) @ '': '' @ data (example_results ! i))
               (astype_int example_lib (fst (hd (points (example_results ! i)))),
                astype_int example_lib (snd (hd (points (example_results ! i)))))
               FONT_HERSHEY_SIMPLEX (1 / 2) (255, 0, 0) 1 LINE_AA])
            [0..<length example_results])"
    by blast
  then have "cells (snd run) 2 = [[(255, 0, 0), (255, 0, 0)], [(255, 0, 0), (255, 0, 0)]]
      \<and> calls (snd run) =
       [Polylines 2 [[(10, 10), (30, 10), (30, 30), (10, 30)]] True (0, 255, 0) 2,
        PutText 2 ''1: A'' (10, 10) FONT_HERSHEY_SIMPLEX (1 / 2) (255, 0, 0) 1 LINE_AA,
        Polylines 2 [[(70, 5), (90, 5), (90, 25), (70, 25)]] True (0, 255, 0) 2,
        PutText 2 ''2: B'' (70, 5) FONT_HERSHEY_SIMPLEX (1 / 2) (255, 0, 0) 1 LINE_AA]"
    by (simp add: example_results_def example_store_def example_lib_def box_astype_int_def
        py_str_examples example_floor upt)
  with spec ret show ?thesis by (simp only: run_def simp_thms)
qed

text \<open>
  C10. With an empty list of results \<open>draw_qr_boxes\<close> is a copy: for every allocated
  buffer \<open>img\<close> it returns the next unallocated reference (so not \<open>img\<close>), the buffer
  there holds the pixels of \<open>img\<close>, the buffer at \<open>img\<close> is unchanged, and no drawing
  call is made.
\<close>

theorem draw_qr_boxes_empty:
  assumes "img < next_free s"
  shows "fst (draw_qr_boxes lib img [] s) = Inr (next_free s) \<and> next_free s \<noteq> img
      \<and> cells (snd (draw_qr_boxes lib img [] s)) (next_free s) = cells s img
      \<and> cells (snd (draw_qr_boxes lib img [] s)) img = cells s img
      \<and> calls (snd (draw_qr_boxes lib img [] s)) = calls s"
  using assms by (simp add: draw_qr_boxes_unfold)

theorem draw_qr_boxes_empty_witness:
  "fst (draw_qr_boxes example_lib 0 [] example_store) = Inr 2
     \<and> cells (snd (draw_qr_boxes example_lib 0 [] example_store)) 2
         = [[(255, 255, 255), (0, 0, 0)], [(0, 0, 0), (255, 255, 255)]]
     \<and> cells (snd (draw_qr_boxes example_lib 0 [] example_store)) 0
         = [[(255, 255, 255), (0, 0, 0)], [(0, 0, 0), (255, 255, 255)]]
     \<and> calls (snd (draw_qr_boxes example_lib 0 [] example_store)) = []"
proof -
  have alloc: "0 < next_free example_store" by (simp add: example_store_def)
  from draw_qr_boxes_empty [OF alloc, of example_lib]
  show ?thesis by (simp add: example_store_def)
qed

section \<open>Properties of count\_qr\_codes, format\_results and load\_image\<close>

lemma list2_eqI: "length xs = 2 \<Longrightarrow> xs ! 0 = a \<Longrightarrow> xs ! 1 = b \<Longrightarrow> xs = [a, b]"
proof -
  assume len: "length xs = 2" and nth: "xs ! 0 = a" "xs ! 1 = b"
  from len obtain x y where "xs = [x, y]"
    by (cases xs; cases "tl xs") auto
  with nth show ?thesis by simp
qed

text \<open>
  C8. \<open>count_qr_codes\<close> returns the length of the list it is given; it returns 0 for the
  empty list, and so for the list \<open>detect_qr_codes\<close> returns when the detector found
  nothing.
\<close>

theorem count_qr_codes_length:
  "count_qr_codes results = int (length results)
   \<and> count_qr_codes ([] :: 'c QRCodeResult list) = 0
   \<and> (detectAndDecodeMulti lib (QRCodeDetector lib) (cells s img) = Inr (Tuple3 texts pts x)
        \<and> (pts = None \<or> texts = [])
      \<longrightarrow> map_sum id count_qr_codes (fst (detect_qr_codes lib img s)) = Inr 0)"
  by (auto simp: count_qr_codes_def detect_qr_codes_result split: option.splits)

theorem count_qr_codes_length_witness:
  "count_qr_codes example_results = 2
   \<and> map_sum id count_qr_codes (fst (detect_qr_codes example_lib 1 example_store)) = Inr 0"
proof -
  have call: "detectAndDecodeMulti example_lib (QRCodeDetector example_lib)
      (cells example_store 1) = Inr (Tuple3 [] None ())"
    by (simp add: example_lib_def example_detector_def example_store_def)
  note len = count_qr_codes_length [of example_results example_lib example_store 1 "[]" None "()"]
  from len have "count_qr_codes example_results = int (length example_results)"
    by (rule conjunct1)
  moreover from len call
  have "map_sum id count_qr_codes (fst (detect_qr_codes example_lib 1 example_store)) = Inr 0"
    by blast
  ultimately show ?thesis by (simp add: example_results_def)
qed

text \<open>
  C4. \<open>format_results\<close> returns one string per result, in the order of the input: for
  every valid index \<open>i\<close> (counted from 0) the string at \<open>i\<close> is the decimal \<open>i + 1\<close>, a
  period, a space and the decoded text of the result at \<open>i\<close>. The function takes and
  returns values only: it has no store to change.
\<close>

theorem format_results_nth:
  "length (format_results results) = length results
   \<and> (\<forall>i < length results.
        format_results results ! i = py_str (int i + 1) @ ''. '' @ data (results ! i))"
  by (simp add: format_results_def py_enumerate_length py_enumerate_nth add.commute)

theorem format_results_nth_witness:
  "format_results example_results = [''1. A'', ''2. B'']
   \<and> format_results example_results ! 1 = ''2. B''"
proof -
  define out where "out = format_results example_results"
  note nth = format_results_nth [of example_results, folded out_def]
  have len: "length example_results = 2" by (simp add: example_results_def)
  from nth len have "length out = 2" by simp
  moreover from nth len have "out ! 0 = ''1. A''"
    by (simp add: example_results_def py_str_examples)
  moreover from nth len have "out ! 1 = ''2. B''"
    by (simp add: example_results_def py_str_examples)
  ultimately have "out = [''1. A'', ''2. B'']"
    by (rule list2_eqI)
  then show ?thesis by (simp add: out_def)
qed

lemma np_array_shape:
  "length (np_array im) = height im \<and> (\<forall>row \<in> set (np_array im). length row = width im)"
  by (auto simp: np_array_def)

lemma np_array_nth:
  "y < height im \<Longrightarrow> x < width im \<Longrightarrow> np_array im ! y ! x = getpixel im (x, y)"
  by (simp add: np_array_def)

text \<open>The array of an image has no element exactly when a side of the image is 0.\<close>

lemma np_array_empty: "ndarray_empty (np_array im) \<longleftrightarrow> width im = 0 \<or> height im = 0"
proof (cases "height im")
  case 0
  then show ?thesis by (simp add: np_array_def ndarray_empty_def)
next
  case (Suc h)
  then show ?thesis
    by (simp add: np_array_def ndarray_empty_def upt_conv_Cons del: upt_Suc)
qed

text \<open>
  C7, as stated, fails: "total over its input domain, signalling no error". PIL
  converts an image of width 0 and height 1; the array made of it has no element, the
  colour conversion raises on it, and so does \<open>load_image\<close>.
\<close>

theorem load_image_zero_width_raises:
  "example_convert 2 = Inr (example_rgb\<lparr>width := 0\<rparr>)
   \<and> load_image example_convert 2 = Inl Cv2Error"
  by (simp add: load_image_def example_convert_def example_rgb_def np_array_def
      ndarray_empty_def)

text \<open>
  C7, amended. \<open>load_image\<close> raises when PIL's conversion to RGB raises (the same
  exception) and when the converted image has width 0 or height 0. For every other
  image that PIL converts, whatever its original mode, it returns a buffer of shape
  height x width x 3 of 8-bit channels in which the pixel in row \<open>y\<close>, column \<open>x\<close> is the
  converted image's pixel (x, y) with the channels in the order blue, green, red: the
  reverse of the RGB order used for display.
\<close>

theorem load_image_result:
  "(convert_RGB image_file = Inl e \<longrightarrow> load_image convert_RGB image_file = Inl e)
   \<and> (convert_RGB image_file = Inr im \<and> (width im = 0 \<or> height im = 0) \<longrightarrow>
        load_image convert_RGB image_file = Inl Cv2Error)
   \<and> (convert_RGB image_file = Inr im \<and> 0 < width im \<and> 0 < height im \<longrightarrow>
        (\<exists>arr. load_image convert_RGB image_file = Inr arr
           \<and> length arr = height im
           \<and> (\<forall>row \<in> set arr. length row = width im)
           \<and> (\<forall>y < height im. \<forall>x < width im.
                 arr ! y ! x = (case getpixel im (x, y) of (r, g, b) \<Rightarrow> (b, g, r)))))"
proof (intro conjI impI)
  assume "convert_RGB image_file = Inl e"
  then show "load_image convert_RGB image_file = Inl e"
    by (simp add: load_image_def)
next
  assume "convert_RGB image_file = Inr im \<and> (width im = 0 \<or> height im = 0)"
  then show "load_image convert_RGB image_file = Inl Cv2Error"
    using np_array_empty [of im] by (simp add: load_image_def)
next
  assume conv: "convert_RGB image_file = Inr im \<and> 0 < width im \<and> 0 < height im"
  let ?arr = "map (map (\<lambda>(r, g, b). (b, g, r))) (np_array im)"
  have "\<not> ndarray_empty (np_array im)"
    using conv np_array_empty [of im] by simp
  then have "load_image convert_RGB image_file = Inr ?arr"
    using conv by (simp add: load_image_def)
  moreover have "length ?arr = height im"
    by (simp add: np_array_shape)
  moreover have "\<forall>row \<in> set ?arr. length row = width im"
    using np_array_shape [of im] by auto
  moreover have "\<forall>y < height im. \<forall>x < width im.
      ?arr ! y ! x = (case getpixel im (x, y) of (r, g, b) \<Rightarrow> (b, g, r))"
    using np_array_shape [of im] by (simp add: np_array_nth)
  ultimately show "\<exists>arr. load_image convert_RGB image_file = Inr arr
           \<and> length arr = height im
           \<and> (\<forall>row \<in> set arr. length row = width im)
           \<and> (\<forall>y < height im. \<forall>x < width im.
                 arr ! y ! x = (case getpixel im (x, y) of (r, g, b) \<Rightarrow> (b, g, r)))"
    by blast
qed

theorem load_image_result_witness:
  "load_image example_convert 1 = Inr [[(30, 20, 10), (60, 50, 40)]]
   \<and> load_image example_convert 0 = Inl PILError
   \<and> load_image example_convert 2 = Inl Cv2Error"
proof -
  have ok: "example_convert 1 = Inr example_rgb \<and> 0 < width example_rgb \<and> 0 < height example_rgb"
    by (simp add: example_convert_def example_rgb_def)
  have bad: "example_convert 0 = Inl PILError" by (simp add: example_convert_def)
  have zero: "example_convert 2 = Inr (example_rgb\<lparr>width := 0\<rparr>)
      \<and> (width (example_rgb\<lparr>width := 0\<rparr>) = 0 \<or> height (example_rgb\<lparr>width := 0\<rparr>) = 0)"
    by (simp add: example_convert_def)
  from load_image_result [of example_convert 1 PILError example_rgb] ok
  obtain arr where arr: "load_image example_convert 1 = Inr arr"
    and h: "length arr = height example_rgb"
    and w: "\<forall>row \<in> set arr. length row = width example_rgb"
    and px: "\<forall>y < height example_rgb. \<forall>x < width example_rgb.
        arr ! y ! x = (case getpixel example_rgb (x, y) of (r, g, b) \<Rightarrow> (b, g, r))"
    by blast
  from h obtain row where rows: "arr = [row]"
    by (cases arr) (simp_all add: example_rgb_def)
  from w rows have "length row = 2" by (simp add: example_rgb_def)
  moreover from px rows have "row ! 0 = (30, 20, 10)" "row ! 1 = (60, 50, 40)"
    by (simp_all add: example_rgb_def)
  ultimately have "row = [(30, 20, 10), (60, 50, 40)]"
    by (rule list2_eqI)
  moreover from load_image_result [of example_convert 0 PILError example_rgb] bad
  have "load_image example_convert 0 = Inl PILError" by blast
  moreover from load_image_result [of example_convert 2 PILError "example_rgb\<lparr>width := 0\<rparr>"] zero
  have "load_image example_convert 2 = Inl Cv2Error" by blast
  ultimately show ?thesis using arr rows by simp
qed

end
